theory Spec2Isabelle
  imports Complex_Main
begin

section \<open>Shared JavaScript notions\<close>

text \<open>
  Values of type \<open>any\<close> that flow through handlers and results. Thrown \<open>Error\<close> objects are
  represented by their message; a function that may throw returns \<open>string + 'a\<close>, with
  \<open>Inl\<close> carrying the message of the thrown error.
\<close>

datatype jsval = JNull | JStr string | JNum int | JBool bool | JObj "(string \<times> jsval) list"

text \<open>Decimal rendering of an integer inside a template literal.\<close>

fun digits10 :: "nat \<Rightarrow> string" where
  "digits10 n = (if n < 10 then [char_of (48 + n)]
                 else digits10 (n div 10) @ [char_of (48 + n mod 10)])"

declare digits10.simps [simp del]

definition string_of_int :: "int \<Rightarrow> string" where
  "string_of_int i = (if i < 0 then CHR ''-'' # digits10 (nat (- i)) else digits10 (nat i))"

text \<open>A name between single quotes, as the error messages print it.\<close>

definition quoted :: "string \<Rightarrow> string" where
  "quoted s = CHR 0x27 # s @ [CHR 0x27]"


text \<open>Truthiness of an optional string: \<open>undefined\<close> and the empty string are falsy.\<close>

fun truthy :: "string option \<Rightarrow> bool" where
  "truthy None = False"
| "truthy (Some s) = (s \<noteq> [])"

section \<open>Capability registry: \<open>FunctionRegistry\<close>\<close>

subsection \<open>Data\<close>

record FunctionExecutionContext =
  functionId :: string
  userId :: "string option"
  sessionId :: string
  parameters :: "(string \<times> jsval) list"
  ctx_metadata :: "(string \<times> jsval) list"
  startTime :: int
  retryCount :: int
  fallbackChain :: "string list"

record FunctionExecutionResult =
  success :: bool
  result :: jsval
  error :: "string option"
  executionTime :: int
  metadata :: "(string \<times> jsval) list"
  fallbackUsed :: "string option"

text \<open>
  What awaiting a handler's promise gives: it resolves with a value or rejects with a
  message after so many milliseconds, or it never settles. A handler that returns a plain
  value or throws synchronously settles after 0 ms.
\<close>

datatype settle = Resolves jsval nat | Rejects string nat | Pending

record RateLimit =
  requestsPerMinute :: int
  burstLimit :: int

record Execution =
  timeout :: int
  retries :: int
  fallback :: "string option"
  requiresAuth :: bool
  rateLimit :: RateLimit

record FunctionDefinition =
  def_id :: string
  name :: string
  description :: string
  version :: string
  category :: string
  execution :: Execution
  handler :: "(string \<times> jsval) list \<Rightarrow> FunctionExecutionContext \<Rightarrow> settle"

record Limiter =
  requests :: "string \<rightharpoonup> int list"
  limit :: int
  window :: int

datatype registry_event =
    FunctionRegistered string
  | FunctionExecuted string FunctionExecutionContext FunctionExecutionResult

text \<open>
  The registry object together with the wall clock that \<open>Date.now()\<close> reads. \<open>functions\<close> is
  an insertion-ordered \<open>Map\<close>, kept as an association list; \<open>emitted\<close> is the sequence of
  events handed to \<open>emit\<close>.
\<close>

record Registry =
  functions_map :: "(string \<times> FunctionDefinition) list"
  categories :: "string \<rightharpoonup> string set"
  executionHistory :: "string \<rightharpoonup> FunctionExecutionResult list"
  rateLimiters :: "string \<rightharpoonup> Limiter"
  fallbackChains :: "string \<rightharpoonup> string list"
  emitted :: "registry_event list"
  clock :: int

definition empty_registry :: "int \<Rightarrow> Registry" where
  "empty_registry t = \<lparr>functions_map = [], categories = Map.empty, executionHistory = Map.empty,
     rateLimiters = Map.empty, fallbackChains = Map.empty, emitted = [], clock = t\<rparr>"

subsection \<open>Registration\<close>

definition getFunction :: "Registry \<Rightarrow> string \<Rightarrow> FunctionDefinition option" where
  "getFunction st n = map_of (functions_map st) n"

definition initializeRateLimiter :: "FunctionDefinition \<Rightarrow> Registry \<Rightarrow> Registry" where
  "initializeRateLimiter d st =
     st\<lparr>rateLimiters := (rateLimiters st)(name d \<mapsto>
        \<lparr>requests = Map.empty, limit = requestsPerMinute (rateLimit (execution d)),
         window = 60000\<rparr>)\<rparr>"

text \<open>
  \<open>registerFunction\<close>. The schema check \<open>FunctionDefinitionSchema.parse\<close> belongs to the
  validation library and is the parameter \<open>schema_ok\<close>.
\<close>

definition registerFunction ::
  "(FunctionDefinition \<Rightarrow> bool) \<Rightarrow> FunctionDefinition \<Rightarrow> Registry \<Rightarrow> string + Registry" where
  "registerFunction schema_ok d st =
     (if \<not> schema_ok d then Inl ''ZodError''
      else if getFunction st (name d) \<noteq> None
        then Inl (''Function with name '' @ quoted (name d) @ '' already exists'')
      else
        (let st1 = st\<lparr>functions_map := functions_map st @ [(name d, d)]\<rparr>;
             st2 = st1\<lparr>categories := (categories st1)(category d \<mapsto>
                      insert (name d) (case categories st1 (category d) of
                                         None \<Rightarrow> {} | Some s \<Rightarrow> s))\<rparr>;
             st3 = initializeRateLimiter d st2;
             st4 = (if truthy (fallback (execution d))
                    then st3\<lparr>fallbackChains := (fallbackChains st3)(name d \<mapsto>
                              [the (fallback (execution d))])\<rparr>
                    else st3)
         in Inr (st4\<lparr>emitted := emitted st4 @ [FunctionRegistered (name d)]\<rparr>)))"

subsection \<open>Rate limiting, timeout, history\<close>

definition userKey :: "FunctionExecutionContext \<Rightarrow> FunctionDefinition \<Rightarrow> string" where
  "userKey ctx d = (case userId ctx of None \<Rightarrow> ''undefined'' | Some u \<Rightarrow> u) @ '':'' @ name d"

definition recentRequests :: "Limiter \<Rightarrow> string \<Rightarrow> int \<Rightarrow> int list" where
  "recentRequests limiter k now =
     filter (\<lambda>time. now - time < window limiter)
       (case requests limiter k of None \<Rightarrow> [] | Some ts \<Rightarrow> ts)"

definition checkRateLimit ::
  "FunctionDefinition \<Rightarrow> FunctionExecutionContext \<Rightarrow> Registry \<Rightarrow> bool \<times> Registry" where
  "checkRateLimit d ctx st =
     (case rateLimiters st (name d) of
        None \<Rightarrow> (True, st)
      | Some limiter \<Rightarrow>
          (let now = clock st;
               k = userKey ctx d;
               recent = recentRequests limiter k now
           in if int (length recent) \<ge> limit limiter then (False, st)
              else (True, st\<lparr>rateLimiters := (rateLimiters st)(name d \<mapsto>
                      limiter\<lparr>requests := (requests limiter)(k \<mapsto> recent @ [now])\<rparr>)\<rparr>)))"

definition timeout_message :: "int \<Rightarrow> string" where
  "timeout_message ms = ''Function execution timed out after '' @ string_of_int ms @ ''ms''"

text \<open>
  \<open>Promise.race\<close> of the handler's promise against \<open>createTimeout ms\<close>. The handler is
  started first, so it wins when it settles no later than the timer fires; a negative
  delay fires the timer at once. The second component is the time that passed.
\<close>

fun settles_within :: "settle \<Rightarrow> int \<Rightarrow> bool" where
  "settles_within (Resolves v d) ms = (d \<le> nat ms)"
| "settles_within (Rejects m d) ms = (d \<le> nat ms)"
| "settles_within Pending ms = False"

fun race :: "settle \<Rightarrow> int \<Rightarrow> (string + jsval) \<times> nat" where
  "race (Resolves v d) ms =
     (if settles_within (Resolves v d) ms then (Inr v, d)
      else (Inl (timeout_message ms), nat ms))"
| "race (Rejects m d) ms =
     (if settles_within (Rejects m d) ms then (Inl m, d)
      else (Inl (timeout_message ms), nat ms))"
| "race Pending ms = (Inl (timeout_message ms), nat ms)"

definition recordExecution :: "string \<Rightarrow> FunctionExecutionResult \<Rightarrow> Registry \<Rightarrow> Registry" where
  "recordExecution n r st =
     (let history = (case executionHistory st n of None \<Rightarrow> [] | Some h \<Rightarrow> h) @ [r];
          history' = (if length history > 100 then tl history else history)
      in st\<lparr>executionHistory := (executionHistory st)(n \<mapsto> history')\<rparr>)"

definition finish ::
  "string \<Rightarrow> FunctionExecutionContext \<Rightarrow> FunctionExecutionResult \<Rightarrow> Registry \<Rightarrow> Registry" where
  "finish n ctx r st =
     (let st1 = recordExecution n r st
      in st1\<lparr>emitted := emitted st1 @ [FunctionExecuted n ctx r]\<rparr>)"

definition not_found_message :: "string \<Rightarrow> string" where
  "not_found_message n = ''Function '' @ quoted n @ '' not found''"

definition rate_limit_message :: "string \<Rightarrow> string" where
  "rate_limit_message n = ''Rate limit exceeded for function '' @ quoted n"

definition auth_message :: "string \<Rightarrow> string" where
  "auth_message n = ''Authentication required for function '' @ quoted n"

text \<open>
  The result object as \<open>executeFunction\<close> leaves it after a success, and after a failure
  (where \<open>executionTime\<close> and \<open>metadata\<close> keep their initial values).
\<close>

definition success_result ::
  "FunctionDefinition \<Rightarrow> FunctionExecutionContext \<Rightarrow> jsval \<Rightarrow> int \<Rightarrow> FunctionExecutionResult" where
  "success_result d ctx v elapsed =
     \<lparr>success = True, result = v, error = None, executionTime = elapsed,
      metadata = [(''functionId'', JStr (def_id d)), (''version'', JStr (version d)),
                  (''category'', JStr (category d)), (''parameters'', JObj (parameters ctx))],
      fallbackUsed = None\<rparr>"

definition failure_result :: "string \<Rightarrow> FunctionExecutionResult" where
  "failure_result msg =
     \<lparr>success = False, result = JNull, error = Some msg, executionTime = 0, metadata = [],
      fallbackUsed = None\<rparr>"

fun retry_bound :: "(string \<times> FunctionDefinition) list \<Rightarrow> int" where
  "retry_bound [] = 0"
| "retry_bound ((n, d) # fs) = max (retries (execution d)) (retry_bound fs)"

lemma maxRetries_ge: "map_of fs n = Some d \<Longrightarrow> retries (execution d) \<le> retry_bound fs"
  by (induction fs rule: retry_bound.induct) (auto split: if_splits)

lemma checkRateLimit_functions [simp]:
  "functions_map (snd (checkRateLimit d ctx st)) = functions_map st"
  by (simp add: checkRateLimit_def Let_def split: option.splits)

lemma checkRateLimit_functions_eq:
  "(b, y) = checkRateLimit d ctx st \<Longrightarrow> functions_map y = functions_map st"
  by (metis checkRateLimit_functions snd_conv)

subsection \<open>Execution with fallback\<close>

text \<open>
  \<open>executeFunction\<close> and \<open>executeFallback\<close> call each other. Both mutate the context
  object they are given (\<open>retryCount\<close>, \<open>fallbackChain\<close>) and the registry, so both return the
  context and the registry next to the outcome. \<open>Inl\<close> is a thrown error, \<open>Inr\<close> a returned
  \<open>FunctionExecutionResult\<close>. Awaiting the race lets the clock advance by the time it took.
  The recursion ends because every hop raises \<open>retryCount\<close> and a hop is only taken below
  the \<open>retries\<close> of a registered definition.
\<close>

function executeFunction ::
    "string \<Rightarrow> FunctionExecutionContext \<Rightarrow> Registry
       \<Rightarrow> (string + FunctionExecutionResult) \<times> FunctionExecutionContext \<times> Registry"
  and executeFallback ::
    "FunctionDefinition \<Rightarrow> FunctionExecutionContext \<Rightarrow> FunctionExecutionResult \<Rightarrow> Registry
       \<Rightarrow> (string + FunctionExecutionResult) \<times> FunctionExecutionContext \<times> Registry"
where
  "executeFunction n ctx st =
     (case getFunction st n of
        None \<Rightarrow> (Inl (not_found_message n), ctx, st)
      | Some functionDef \<Rightarrow>
          (let (admitted, st1) = checkRateLimit functionDef ctx st
           in if \<not> admitted then (Inl (rate_limit_message n), ctx, st1)
              else if requiresAuth (execution functionDef) \<and> \<not> truthy (userId ctx)
              then (Inl (auth_message n), ctx, st1)
              else
                (let (settled, elapsed) = race (handler functionDef (parameters ctx) ctx)
                                               (timeout (execution functionDef));
                     st2 = st1\<lparr>clock := clock st1 + int elapsed\<rparr>
                 in case settled of
                      Inr v \<Rightarrow>
                        (let executionResult = success_result functionDef ctx v (int elapsed)
                         in (Inr executionResult, ctx, finish n ctx executionResult st2))
                    | Inl msg \<Rightarrow>
                        (let executionResult = failure_result msg
                         in if truthy (fallback (execution functionDef))
                               \<and> retryCount ctx < retries (execution functionDef)
                            then executeFallback functionDef ctx executionResult st2
                            else (Inr executionResult, ctx,
                                  finish n ctx executionResult st2)))))"
| "executeFallback functionDef ctx originalResult st =
     (case fallback (execution functionDef) of
        None \<Rightarrow> (Inr originalResult, ctx, st)
      | Some fallbackName \<Rightarrow>
          (case getFunction st fallbackName of
             None \<Rightarrow> (Inr originalResult, ctx, st)
           | Some fallbackDef \<Rightarrow>
               (let ctx1 = ctx\<lparr>retryCount := retryCount ctx + 1,
                               fallbackChain := fallbackChain ctx @ [fallbackName]\<rparr>;
                    (outcome, ctx2, st2) = executeFunction fallbackName ctx1 st
                in case outcome of
                     Inl e \<Rightarrow> (Inr originalResult, ctx2, st2)
                   | Inr fallbackResult \<Rightarrow>
                       (Inr (fallbackResult\<lparr>fallbackUsed := Some fallbackName\<rparr>),
                        ctx2, st2))))"
  by pat_completeness auto
termination
  apply (relation "measure (\<lambda>x. case x of
            Inl (n, ctx, st) \<Rightarrow> 2 * nat (retry_bound (functions_map st) - retryCount ctx)
          | Inr (d, ctx, r, st) \<Rightarrow> 2 * nat (retry_bound (functions_map st) - (retryCount ctx + 1)) + 1)")
    apply simp
   apply (auto simp: getFunction_def dest!: maxRetries_ge checkRateLimit_functions_eq)
  done

declare executeFunction.simps [simp del] executeFallback.simps [simp del]

subsection \<open>The registry of the test suite\<close>

text \<open>
  The definitions the repository's tests register, with the fields the tests set: a
  primary capability whose handler rejects and that names a fallback, the fallback, a
  capability limited to one request per minute, a slow capability (200 ms against a
  timeout of 100 ms), the same slow capability with a fallback declared, and one that
  requires authentication.
\<close>

definition test_ctx :: FunctionExecutionContext where
  "test_ctx = \<lparr>functionId = ''123e4567-e89b-12d3-a456-426614174000'',
     userId = Some ''test-user-123'', sessionId = ''test-session-456'', parameters = [],
     ctx_metadata = [], startTime = 0, retryCount = 0, fallbackChain = []\<rparr>"

definition test_definition ::
  "string \<Rightarrow> int \<Rightarrow> string option \<Rightarrow> bool \<Rightarrow> int \<Rightarrow> settle \<Rightarrow> FunctionDefinition" where
  "test_definition n ms fb auth rpm outcome =
     \<lparr>def_id = ''123e4567-e89b-12d3-a456-426614174000'', name = n, description = [],
      version = ''1.0.0'', category = ''utility'',
      execution = \<lparr>timeout = ms, retries = 1, fallback = fb, requiresAuth = auth,
                   rateLimit = \<lparr>requestsPerMinute = rpm, burstLimit = 20\<rparr>\<rparr>,
      handler = (\<lambda>ps ctx. outcome)\<rparr>"

fun registerAll :: "FunctionDefinition list \<Rightarrow> Registry \<Rightarrow> Registry" where
  "registerAll [] st = st"
| "registerAll (d # ds) st =
     (case registerFunction (\<lambda>d. True) d st of
        Inl e \<Rightarrow> registerAll ds st
      | Inr st' \<Rightarrow> registerAll ds st')"

definition primary_function :: FunctionDefinition where
  "primary_function = test_definition ''primary_function'' 5000 (Some ''fallback_function'')
     False 100 (Rejects ''Primary function failed'' 0)"

definition fallback_function :: FunctionDefinition where
  "fallback_function = test_definition ''fallback_function'' 5000 None False 100
     (Resolves (JStr ''fallback result'') 0)"

definition rate_limited_function :: FunctionDefinition where
  "rate_limited_function = test_definition ''rate_limited_function'' 5000 None False 1
     (Resolves (JStr ''rate limited result'') 0)"

definition slow_function :: FunctionDefinition where
  "slow_function = test_definition ''slow_function'' 100 None False 100
     (Resolves (JStr ''slow result'') 200)"

definition slow_with_fallback :: FunctionDefinition where
  "slow_with_fallback = test_definition ''slow_with_fallback'' 100 (Some ''fallback_function'')
     False 100 (Resolves (JStr ''slow result'') 200)"

definition private_function :: FunctionDefinition where
  "private_function = test_definition ''private_function'' 5000 None True 100
     (Resolves (JStr ''private result'') 0)"

definition test_definitions :: "FunctionDefinition list" where
  "test_definitions = [primary_function, fallback_function, rate_limited_function,
     slow_function, slow_with_fallback, private_function]"

definition test_registry :: Registry where
  "test_registry = registerAll test_definitions (empty_registry 1000)"

text \<open>The limiter that \<open>initializeRateLimiter\<close> installs for a definition.\<close>

definition new_limiter :: "FunctionDefinition \<Rightarrow> Limiter" where
  "new_limiter d = \<lparr>requests = Map.empty, limit = requestsPerMinute (rateLimit (execution d)),
     window = 60000\<rparr>"

section \<open>Properties of the capability registry\<close>

subsection \<open>Auxiliary facts\<close>





lemma checkRateLimit_limiter:
  assumes "rateLimiters st (name d) = Some limiter"
  shows "checkRateLimit d ctx st =
     (if limit limiter \<le> int (length (recentRequests limiter (userKey ctx d) (clock st))) then (False, st)
      else (True, st\<lparr>rateLimiters := (rateLimiters st)(name d \<mapsto>
              limiter\<lparr>requests := (requests limiter)(userKey ctx d \<mapsto>
                   recentRequests limiter (userKey ctx d) (clock st) @ [clock st])\<rparr>)\<rparr>))"
  using assms by (simp add: checkRateLimit_def Let_def)

lemma race_cases:
  obtains (won) v el where "race s ms = (Inr v, el)" | (lost) msg el where "race s ms = (Inl msg, el)"
  by (cases "race s ms"; cases "fst (race s ms)") auto

lemma executeFunction_unregistered:
  "getFunction st n = None \<Longrightarrow> executeFunction n ctx st = (Inl (not_found_message n), ctx, st)"
  by (subst executeFunction.simps) simp

lemma executeFunction_rejected:
  "getFunction st n = Some d \<Longrightarrow> checkRateLimit d ctx st = (False, st1)
     \<Longrightarrow> executeFunction n ctx st = (Inl (rate_limit_message n), ctx, st1)"
  by (subst executeFunction.simps) simp

lemma executeFunction_unauthorised:
  "getFunction st n = Some d \<Longrightarrow> checkRateLimit d ctx st = (True, st1)
     \<Longrightarrow> requiresAuth (execution d) \<Longrightarrow> \<not> truthy (userId ctx)
     \<Longrightarrow> executeFunction n ctx st = (Inl (auth_message n), ctx, st1)"
  by (subst executeFunction.simps) simp

lemma executeFunction_handler_success:
  assumes "getFunction st n = Some d" and "checkRateLimit d ctx st = (True, st1)"
    and "\<not> (requiresAuth (execution d) \<and> \<not> truthy (userId ctx))"
    and "race (handler d (parameters ctx) ctx) (timeout (execution d)) = (Inr v, el)"
  shows "executeFunction n ctx st =
           (Inr (success_result d ctx v (int el)), ctx,
            finish n ctx (success_result d ctx v (int el)) (st1\<lparr>clock := clock st1 + int el\<rparr>))"
  using assms by (subst executeFunction.simps) (auto simp: Let_def)

lemma executeFunction_handler_failure:
  assumes "getFunction st n = Some d" and "checkRateLimit d ctx st = (True, st1)"
    and "\<not> (requiresAuth (execution d) \<and> \<not> truthy (userId ctx))"
    and "race (handler d (parameters ctx) ctx) (timeout (execution d)) = (Inl msg, el)"
  shows "executeFunction n ctx st =
           (if truthy (fallback (execution d)) \<and> retryCount ctx < retries (execution d)
            then executeFallback d ctx (failure_result msg) (st1\<lparr>clock := clock st1 + int el\<rparr>)
            else (Inr (failure_result msg), ctx,
                  finish n ctx (failure_result msg) (st1\<lparr>clock := clock st1 + int el\<rparr>)))"
  using assms by (subst executeFunction.simps) (auto simp: Let_def)


text \<open>
  Whatever the rate-limit check, the passing of time and the recording of a result
  preserve is preserved by an execution, fallbacks included.
\<close>

lemma execution_preserves:
  assumes crl: "\<And>d c st b st'. checkRateLimit d c st = (b, st') \<Longrightarrow> P st \<Longrightarrow> P st'"
    and clk: "\<And>st e. P st \<Longrightarrow> P (st\<lparr>clock := clock st + int e\<rparr>)"
    and fin: "\<And>st m c r. P st \<Longrightarrow> P (finish m c r st)"
  shows "P st \<Longrightarrow> P (snd (snd (executeFunction m c st)))"
    and "P st \<Longrightarrow> P (snd (snd (executeFallback d c r st)))"
proof (induction m c st and d c r st rule: executeFunction_executeFallback.induct)
  case (1 m c st)
  show ?case
  proof (cases "getFunction st m")
    case None
    with "1.prems" show ?thesis by (simp add: executeFunction_unregistered)
  next
    case (Some fd)
    obtain adm st1 where c1: "checkRateLimit fd c st = (adm, st1)"
      by (cases "checkRateLimit fd c st")
    have P1: "P st1" using crl [OF c1 "1.prems"] .
    show ?thesis
    proof (cases adm)
      case False
      with Some c1 P1 show ?thesis by (simp add: executeFunction_rejected)
    next
      case True
      with c1 have c1: "checkRateLimit fd c st = (True, st1)" by simp
      show ?thesis
      proof (cases "requiresAuth (execution fd) \<and> \<not> truthy (userId c)")
        case True
        with Some c1 P1 show ?thesis by (auto simp: executeFunction_unauthorised)
      next
        case auth: False
        show ?thesis
        proof (cases "handler fd (parameters c) c" "timeout (execution fd)" rule: race_cases)
          case (won v el)
          from executeFunction_handler_success [OF Some c1 auth won] P1 show ?thesis
            by (simp add: clk fin)
        next
          case (lost msg el)
          let ?st2 = "st1\<lparr>clock := clock st1 + int el\<rparr>"
          have P2: "P ?st2" using P1 by (rule clk)
          note unf = executeFunction_handler_failure [OF Some c1 auth lost]
          show ?thesis
          proof (cases "truthy (fallback (execution fd)) \<and> retryCount c < retries (execution fd)")
            case False
            with unf P2 show ?thesis by (simp add: fin)
          next
            case True
            have "P (snd (snd (executeFallback fd c (failure_result msg) ?st2)))"
              by (rule "1.IH" [OF Some refl c1 [symmetric] _ auth refl lost [symmetric] refl refl refl True P2])
                simp
            with unf True show ?thesis by simp
          qed
        qed
      qed
    qed
  qed
next
  case (2 d c r st)
  show ?case
  proof (cases "fallback (execution d)")
    case None
    with "2.prems" show ?thesis by (subst executeFallback.simps) simp
  next
    case fb: (Some fallbackName)
    show ?thesis
    proof (cases "getFunction st fallbackName")
      case None
      with fb "2.prems" show ?thesis by (subst executeFallback.simps) simp
    next
      case fd: (Some fallbackDef)
      have "P (snd (snd (executeFunction fallbackName
                (c\<lparr>retryCount := retryCount c + 1,
                   fallbackChain := fallbackChain c @ [fallbackName]\<rparr>) st)))"
        by (rule "2.IH" [OF fb fd refl "2.prems"])
      with fb fd show ?thesis
        by (subst executeFallback.simps) (auto simp: Let_def split: prod.splits sum.splits)
    qed
  qed
qed

definition slot_taken :: "string \<Rightarrow> string \<Rightarrow> int \<Rightarrow> int \<Rightarrow> int \<Rightarrow> Registry \<Rightarrow> bool" where
  "slot_taken n k L W t1 st \<longleftrightarrow>
     (\<exists>limiter ts t. rateLimiters st n = Some limiter \<and> limit limiter = L \<and> window limiter = W \<and>
        requests limiter k = Some ts \<and> t \<in> set ts \<and> t1 \<le> t)"

lemma slot_taken_checkRateLimit:
  assumes "checkRateLimit d c st = (b, st')" and "slot_taken n k L W t1 st \<and> t1 \<le> clock st"
  shows "slot_taken n k L W t1 st' \<and> t1 \<le> clock st'"
proof (cases "rateLimiters st (name d)")
  case None
  with assms show ?thesis by (simp add: checkRateLimit_def)
next
  case (Some limiter)
  show ?thesis
  proof (cases b)
    case False
    with assms Some show ?thesis
      by (auto simp: checkRateLimit_def Let_def split: if_splits)
  next
    case True
    with assms Some have st': "st' = st\<lparr>rateLimiters := (rateLimiters st)(name d \<mapsto>
              limiter\<lparr>requests := (requests limiter)(userKey c d \<mapsto>
                   recentRequests limiter (userKey c d) (clock st) @ [clock st])\<rparr>)\<rparr>"
      by (auto simp: checkRateLimit_def Let_def split: if_splits)
    from assms(2) obtain lim0 ts t where l0: "rateLimiters st n = Some lim0" "limit lim0 = L"
      "window lim0 = W" "requests lim0 k = Some ts" "t \<in> set ts" "t1 \<le> t" "t1 \<le> clock st"
      by (auto simp: slot_taken_def)
    show ?thesis
    proof (cases "n = name d")
      case False
      with l0 show ?thesis unfolding slot_taken_def st' by auto
    next
      case n: True
      with l0 Some have [simp]: "lim0 = limiter" by simp
      show ?thesis
      proof (cases "k = userKey c d")
        case True
        with l0 n show ?thesis unfolding slot_taken_def st' by auto
      next
        case False
        with l0 n show ?thesis unfolding slot_taken_def st' by auto
      qed
    qed
  qed
qed



lemma executeFunction_slot_taken:
  assumes "slot_taken n k L W t1 st \<and> t1 \<le> clock st"
  shows "slot_taken n k L W t1 (snd (snd (executeFunction m c st)))"
proof -
  let ?P = "\<lambda>s. slot_taken n k L W t1 s \<and> t1 \<le> clock s"
  have "?P (snd (snd (executeFunction m c st)))"
  proof (rule execution_preserves(1) [where P = ?P])
    show "?P st" by (rule assms)
  next
    fix d c st b st'
    assume "checkRateLimit d c st = (b, st')" and "?P st"
    then show "?P st'" by (rule slot_taken_checkRateLimit)
  next
    fix st :: Registry and e :: nat
    assume "?P st"
    then show "?P (st\<lparr>clock := clock st + int e\<rparr>)" by (auto simp: slot_taken_def)
  next
    fix st m c r
    assume "?P st"
    then show "?P (finish m c r st)"
      by (auto simp: slot_taken_def finish_def recordExecution_def Let_def)
  qed
  then show ?thesis ..
qed





subsection \<open>The registry of the test suite, evaluated\<close>

lemma registerFunction_fresh:
  assumes "getFunction st (name d) = None"
  shows "\<exists>st'. registerFunction (\<lambda>d. True) d st = Inr st'
           \<and> functions_map st' = functions_map st @ [(name d, d)]
           \<and> rateLimiters st' = (rateLimiters st)(name d \<mapsto> new_limiter d)
           \<and> clock st' = clock st"
  using assms by (simp add: registerFunction_def initializeRateLimiter_def new_limiter_def Let_def)

lemma registerAll_fresh:
  assumes "distinct (map name ds)" and "\<forall>d \<in> set ds. getFunction st (name d) = None"
  shows "functions_map (registerAll ds st) = functions_map st @ map (\<lambda>d. (name d, d)) ds
       \<and> clock (registerAll ds st) = clock st
       \<and> (\<forall>n. rateLimiters (registerAll ds st) n =
             (case map_of (map (\<lambda>d. (name d, new_limiter d)) ds) n of
                None \<Rightarrow> rateLimiters st n | Some l \<Rightarrow> Some l))"
  using assms
proof (induction ds arbitrary: st)
  case Nil
  then show ?case by simp
next
  case (Cons d ds)
  from Cons.prems have fresh: "getFunction st (name d) = None" by simp
  from registerFunction_fresh [OF fresh] obtain st' where
    st': "registerFunction (\<lambda>d. True) d st = Inr st'"
      "functions_map st' = functions_map st @ [(name d, d)]"
      "rateLimiters st' = (rateLimiters st)(name d \<mapsto> new_limiter d)"
      "clock st' = clock st"
    by blast
  have d1: "distinct (map name ds)" using Cons.prems by simp
  have d2: "\<forall>e \<in> set ds. getFunction st' (name e) = None"
    using Cons.prems st'(2) by (auto simp: getFunction_def image_iff)
  have nd: "map_of (map (\<lambda>d. (name d, new_limiter d)) ds) (name d) = None"
    using Cons.prems by (auto simp: map_of_eq_None_iff image_iff)
  from Cons.IH [OF d1 d2] st' nd show ?case
    by (auto split: option.splits)
qed

lemmas test_definitions_eval =
  test_definitions_def primary_function_def fallback_function_def rate_limited_function_def
  slow_function_def slow_with_fallback_def private_function_def test_definition_def

lemma test_names:
  "name primary_function = ''primary_function''"
  "name fallback_function = ''fallback_function''"
  "name rate_limited_function = ''rate_limited_function''"
  "name slow_function = ''slow_function''"
  "name slow_with_fallback = ''slow_with_fallback''"
  "name private_function = ''private_function''"
  by (simp_all add: test_definitions_eval)

lemma test_registry_facts:
  "getFunction test_registry n = map_of (map (\<lambda>d. (name d, d)) test_definitions) n"
  "rateLimiters test_registry n = map_of (map (\<lambda>d. (name d, new_limiter d)) test_definitions) n"
  "clock test_registry = 1000"
proof -
  have 1: "distinct (map name test_definitions)"
    by (simp add: test_definitions_def test_names)
  have 2: "\<forall>d \<in> set test_definitions. getFunction (empty_registry 1000) (name d) = None"
    by (simp add: getFunction_def empty_registry_def)
  note f = registerAll_fresh [OF 1 2, folded test_registry_def]
  from f show "getFunction test_registry n = map_of (map (\<lambda>d. (name d, d)) test_definitions) n"
    by (simp add: getFunction_def empty_registry_def)
  from f show "rateLimiters test_registry n
      = map_of (map (\<lambda>d. (name d, new_limiter d)) test_definitions) n"
    by (simp add: empty_registry_def split: option.splits)
  from f show "clock test_registry = 1000" by (simp add: empty_registry_def)
qed

lemma test_registry_functions:
  "getFunction test_registry ''primary_function'' = Some primary_function"
  "getFunction test_registry ''fallback_function'' = Some fallback_function"
  "getFunction test_registry ''rate_limited_function'' = Some rate_limited_function"
  "getFunction test_registry ''slow_function'' = Some slow_function"
  "getFunction test_registry ''slow_with_fallback'' = Some slow_with_fallback"
  "getFunction test_registry ''private_function'' = Some private_function"
  by (simp_all add: test_registry_facts test_definitions_def test_names)

lemma test_registry_limiters:
  "rateLimiters test_registry ''primary_function'' = Some (new_limiter primary_function)"
  "rateLimiters test_registry ''fallback_function'' = Some (new_limiter fallback_function)"
  "rateLimiters test_registry ''rate_limited_function'' = Some (new_limiter rate_limited_function)"
  "rateLimiters test_registry ''slow_function'' = Some (new_limiter slow_function)"
  "rateLimiters test_registry ''slow_with_fallback'' = Some (new_limiter slow_with_fallback)"
  "rateLimiters test_registry ''private_function'' = Some (new_limiter private_function)"
  by (simp_all add: test_registry_facts test_definitions_def test_names)

lemma test_limits:
  "limit (new_limiter primary_function) = 100"
  "limit (new_limiter fallback_function) = 100"
  "limit (new_limiter rate_limited_function) = 1"
  "limit (new_limiter slow_function) = 100"
  "limit (new_limiter slow_with_fallback) = 100"
  "limit (new_limiter private_function) = 100"
  "window (new_limiter d) = 60000"
  "requests (new_limiter d) = Map.empty"
  by (simp_all add: new_limiter_def test_definitions_eval)


subsection \<open>Rate limiting\<close>



text \<open>
  Claim C10. A call that passes the rate-limit check and is then refused because the
  capability requires authentication and the context names no caller is answered with the
  authentication error, and the registry it leaves differs from the one it found: the
  caller's list in the limiter now ends with the time of the check.
\<close>

theorem auth_failure_consumes_rate_limit_slot:
  assumes reg: "getFunction st n = Some d"
    and limiter: "rateLimiters st (name d) = Some limiter"
    and win: "0 < window limiter"
    and room: "int (length (recentRequests limiter (userKey ctx d) (clock st))) < limit limiter"
    and auth: "requiresAuth (execution d)"
    and anon: "\<not> truthy (userId ctx)"
  shows "\<exists>st' limiter'. executeFunction n ctx st = (Inl (auth_message n), ctx, st')
           \<and> st' \<noteq> st
           \<and> rateLimiters st' (name d) = Some limiter'
           \<and> requests limiter' (userKey ctx d)
               = Some (recentRequests limiter (userKey ctx d) (clock st) @ [clock st])"
proof -
  let ?k = "userKey ctx d"
  let ?recent = "recentRequests limiter ?k (clock st)"
  let ?limiter' = "limiter\<lparr>requests := (requests limiter)(?k \<mapsto> ?recent @ [clock st])\<rparr>"
  let ?st' = "st\<lparr>rateLimiters := (rateLimiters st)(name d \<mapsto> ?limiter')\<rparr>"
  have c1: "checkRateLimit d ctx st = (True, ?st')"
    using limiter room by (simp add: checkRateLimit_limiter)
  have ex: "executeFunction n ctx st = (Inl (auth_message n), ctx, ?st')"
    by (rule executeFunction_unauthorised [OF reg c1 auth anon])
  have "?st' \<noteq> st"
  proof
    assume "?st' = st"
    then have "rateLimiters ?st' (name d) = rateLimiters st (name d)" by simp
    then have "?limiter' = limiter" using limiter by simp
    then have "requests ?limiter' ?k = requests limiter ?k" by simp
    then have eq: "requests limiter ?k = Some (?recent @ [clock st])" by simp
    define keep where "keep = (\<lambda>time. clock st - time < window limiter)"
    define ts where "ts = ?recent @ [clock st]"
    have "?recent = filter keep (case requests limiter ?k of None \<Rightarrow> [] | Some ts \<Rightarrow> ts)"
      by (simp add: recentRequests_def keep_def)
    also have "(case requests limiter ?k of None \<Rightarrow> [] | Some ts \<Rightarrow> ts) = ts"
      by (simp only: eq option.case ts_def)
    finally have "?recent = filter keep ts" .
    then have "ts = filter keep ts @ [clock st]" by (simp add: ts_def)
    then have "length ts = length (filter keep ts) + 1"
      by (metis length_append_singleton Suc_eq_plus1)
    moreover have "keep (clock st)" using win by (simp add: keep_def)
    then have "length (filter keep ts) = length (filter keep ?recent) + 1"
      by (simp add: ts_def)
    moreover have "filter keep ?recent = ?recent"
      by (simp add: recentRequests_def keep_def)
    moreover have "length ts = length ?recent + 1" by (simp add: ts_def)
    ultimately show False by simp
  qed
  with ex show ?thesis by auto
qed

text \<open>An anonymous call of \<open>private_function\<close>, which requires authentication.\<close>

theorem auth_failure_consumes_rate_limit_slot_witness:
  "getFunction test_registry ''private_function'' = Some private_function
   \<and> requiresAuth (execution private_function)
   \<and> \<not> truthy (userId (test_ctx\<lparr>userId := None\<rparr>))
   \<and> (\<exists>st' limiter'. executeFunction ''private_function'' (test_ctx\<lparr>userId := None\<rparr>) test_registry
          = (Inl (auth_message ''private_function''), test_ctx\<lparr>userId := None\<rparr>, st')
        \<and> st' \<noteq> test_registry
        \<and> rateLimiters st' ''private_function'' = Some limiter'
        \<and> requests limiter' ''undefined:private_function'' = Some [1000])"
proof -
  let ?limiter = "new_limiter private_function"
  let ?ctx = "test_ctx\<lparr>userId := None\<rparr>"
  have h2: "rateLimiters test_registry (name private_function) = Some ?limiter"
    by (simp add: test_names test_registry_limiters)
  have h3: "0 < window ?limiter" by (simp add: test_limits)
  have h4: "int (length (recentRequests ?limiter (userKey ?ctx private_function) (clock test_registry)))
              < limit ?limiter"
    by (simp add: recentRequests_def test_limits)
  have h5: "requiresAuth (execution private_function)" by (simp add: test_definitions_eval)
  have h6: "\<not> truthy (userId ?ctx)" by simp
  have k: "userKey ?ctx private_function = ''undefined:private_function''"
    by (simp add: userKey_def test_names)
  have r: "recentRequests ?limiter ''undefined:private_function'' (clock test_registry)
             @ [clock test_registry] = [1000]"
    by (simp add: recentRequests_def test_limits test_registry_facts)
  from auth_failure_consumes_rate_limit_slot
         [OF test_registry_functions(6) h2 h3 h4 h5 h6, unfolded k r test_names]
       test_registry_functions(6) h5 h6
  show ?thesis by simp
qed

subsection \<open>How failures reach the caller\<close>

text \<open>
  Claim C3. On the registry of the test suite, executing a name that is not registered
  throws the not-found error, and the second of two calls of \<open>rate_limited_function\<close>
  throws the rate-limit error: neither failure is returned as a result object with
  \<open>success = false\<close> and an \<open>error\<close> field, which is what the test suite expects of the
  second call.
\<close>

theorem registry_failures_are_thrown:
  "fst (executeFunction ''missing_function'' test_ctx test_registry)
     = Inl (not_found_message ''missing_function'')
   \<and> fst (executeFunction ''rate_limited_function'' test_ctx test_registry)
     = Inr (success_result rate_limited_function test_ctx (JStr ''rate limited result'') 0)
   \<and> fst (executeFunction ''rate_limited_function'' test_ctx
            (snd (snd (executeFunction ''rate_limited_function'' test_ctx test_registry))))
     = Inl (rate_limit_message ''rate_limited_function'')"
  by code_simp

subsection \<open>Fallback\<close>




subsection \<open>Timeout\<close>




section \<open>Provider adapters: \<open>BaseProvider\<close> and \<open>OpenAIProvider\<close>\<close>

text \<open>
  \<open>withRetry\<close>. The operation is effectful, so it is given as the outcome of its invocation
  number \<open>attempt\<close> (\<open>Inl\<close> a thrown error); \<open>random\<close> gives the value \<open>Math.random()\<close> returns
  after that attempt has failed. The loop keeps the last error, and the model returns,
  next to the outcome, how often the operation was invoked and the delays that were
  slept, in milliseconds. \<open>throw lastError\<close> throws \<open>undefined\<close> (\<open>Inl None\<close>) when the loop
  body never ran, which happens for a negative \<open>maxRetries\<close>.
\<close>

function withRetry_loop ::
  "(nat \<Rightarrow> 'e + 'a) \<Rightarrow> int \<Rightarrow> real \<Rightarrow> (nat \<Rightarrow> real) \<Rightarrow> nat \<Rightarrow> 'e option \<Rightarrow> real list
     \<Rightarrow> ('e option + 'a) \<times> nat \<times> real list" where
  "withRetry_loop operation maxRetries baseDelay random attempt lastError slept =
     (if int attempt \<le> maxRetries then
        (case operation attempt of
           Inr v \<Rightarrow> (Inr v, attempt + 1, slept)
         | Inl e \<Rightarrow>
             if int attempt = maxRetries then (Inl (Some e), attempt + 1, slept)
             else withRetry_loop operation maxRetries baseDelay random (attempt + 1) (Some e)
                    (slept @ [baseDelay * 2 ^ attempt + random attempt * 1000]))
      else (Inl lastError, attempt, slept))"
  by pat_completeness auto
termination
  by (relation "measure (\<lambda>(operation, maxRetries, baseDelay, random, attempt, lastError, slept).
        nat (maxRetries + 1 - int attempt))") auto

declare withRetry_loop.simps [simp del]

definition withRetry ::
  "(nat \<Rightarrow> 'e + 'a) \<Rightarrow> int \<Rightarrow> real \<Rightarrow> (nat \<Rightarrow> real) \<Rightarrow> ('e option + 'a) \<times> nat \<times> real list" where
  "withRetry operation maxRetries baseDelay random =
     withRetry_loop operation maxRetries baseDelay random 0 None []"

text \<open>
  The kinds of failure the specification tells apart, and an error of the API client with
  its kind and message. \<open>withRetry\<close> never looks at either.
\<close>

datatype failure_kind = TimeoutFailure | ServerFailure | ValidationFailure | AuthFailure

datatype api_error = ApiError failure_kind string

fun message :: "api_error \<Rightarrow> string" where
  "message (ApiError k m) = m"

record ChatMessage =
  role :: string
  content :: string

record ProviderRequest =
  model :: string
  messages :: "ChatMessage list"

record ProviderConfig =
  provider_name :: string
  apiKey :: string
  models :: "string list"

record ProviderCallOptions =
  opt_retries :: "int option"
  opt_timeout :: "int option"

definition validateRequest :: "ProviderConfig \<Rightarrow> ProviderRequest \<Rightarrow> bool" where
  "validateRequest config request =
     (if model request \<notin> set (models config) then False
      else if apiKey config = [] then False
      else if messages request = [] then False
      else True)"

definition handleError :: "ProviderConfig \<Rightarrow> string \<Rightarrow> string \<Rightarrow> string" where
  "handleError config msg ctxt =
     ''Provider '' @ provider_name config @ '' error in '' @ ctxt @ '': '' @ msg"

text \<open>\<open>options.retries || 3\<close>: an absent or zero count becomes 3.\<close>

definition retries_or_default :: "ProviderCallOptions \<Rightarrow> int" where
  "retries_or_default options =
     (case opt_retries options of None \<Rightarrow> 3 | Some r \<Rightarrow> if r = 0 then 3 else r)"

text \<open>
  \<open>OpenAIProvider.call\<close>. \<open>client\<close> is the outcome of the \<open>attempt\<close>-th call of
  \<open>chat.completions.create\<close> on the request, \<open>transformResponse\<close> the translation of its
  answer. \<open>checkRateLimit\<close> and \<open>checkCircuitBreaker\<close> of the base class return \<open>true\<close>.
  Reading \<open>error.message\<close> of the \<open>undefined\<close> that an empty retry loop throws is a
  \<open>TypeError\<close>. The result carries the number of calls of the client and the delays.
\<close>

definition OpenAIProvider_call ::
  "ProviderConfig \<Rightarrow> (ProviderRequest \<Rightarrow> nat \<Rightarrow> api_error + 'raw) \<Rightarrow> ('raw \<Rightarrow> 'resp)
     \<Rightarrow> (nat \<Rightarrow> real) \<Rightarrow> ProviderRequest \<Rightarrow> ProviderCallOptions
     \<Rightarrow> (string + 'resp) \<times> nat \<times> real list" where
  "OpenAIProvider_call config client transformResponse random request options =
     (if \<not> validateRequest config request
      then (Inl (handleError config ''Invalid request for OpenAI provider'' ''chat completion''),
            0, [])
      else
        (case withRetry (client request) (retries_or_default options) 1000 random of
           (Inr response, n, slept) \<Rightarrow> (Inr (transformResponse response), n, slept)
         | (Inl (Some e), n, slept) \<Rightarrow>
             (Inl (handleError config (message e) ''chat completion''), n, slept)
         | (Inl None, n, slept) \<Rightarrow>
             (Inl ''TypeError: Cannot read properties of undefined (reading 'message')'',
              n, slept)))"

definition backoff :: "real \<Rightarrow> (nat \<Rightarrow> real) \<Rightarrow> nat \<Rightarrow> real" where
  "backoff baseDelay random attempt = baseDelay * 2 ^ attempt + random attempt * 1000"

lemma withRetry_loop_run:
  assumes "attempt \<le> k" and "int k \<le> maxRetries"
    and "\<forall>j. attempt \<le> j \<and> j < k \<longrightarrow> (\<exists>e. operation j = Inl e)"
    and "(\<exists>v. operation k = Inr v) \<or> int k = maxRetries"
  shows "withRetry_loop operation maxRetries baseDelay random attempt lastError slept =
     (case operation k of Inr v \<Rightarrow> Inr v | Inl e \<Rightarrow> Inl (Some e), k + 1,
      slept @ map (backoff baseDelay random) [attempt..<k])"
  using assms
proof (induction "k - attempt" arbitrary: attempt lastError slept)
  case 0
  then have [simp]: "attempt = k" by simp
  from "0.prems"(2,4) show ?case
    by (subst withRetry_loop.simps) (auto split: sum.splits)
next
  case (Suc n)
  then have lt: "attempt < k" by simp
  with Suc.prems obtain e where e: "operation attempt = Inl e" by auto
  from lt Suc.prems(2) have ne: "int attempt \<noteq> maxRetries" "int attempt \<le> maxRetries" by auto
  have up: "[attempt..<k] = attempt # [attempt + 1..<k]"
    using lt by (simp add: upt_conv_Cons)
  have "withRetry_loop operation maxRetries baseDelay random (attempt + 1) (Some e)
          (slept @ [backoff baseDelay random attempt]) =
        (case operation k of Inr v \<Rightarrow> Inr v | Inl e \<Rightarrow> Inl (Some e), k + 1,
         (slept @ [backoff baseDelay random attempt]) @ map (backoff baseDelay random) [attempt + 1..<k])"
    using Suc.hyps(2) lt Suc.prems by (intro Suc.hyps(1)) auto
  with e ne show ?case
    by (subst withRetry_loop.simps) (simp add: up backoff_def)
qed

text \<open>
  Claim C8, as the code has it. Let the first \<open>k\<close> calls of the API client fail, with any
  errors whatever, and let call \<open>k\<close> either succeed or be the last one the configured count
  allows (\<open>k = retries\<close>). Then a valid request leads to exactly \<open>k + 1\<close> calls of the
  client; before retry number \<open>attempt + 1\<close> the adapter sleeps
  \<open>1000 * 2 ^ attempt + random * 1000\<close> milliseconds; and the outcome is that of call \<open>k\<close>.
  The kind of a failure plays no part: every failure of the client is retried. Only a
  request that \<open>validateRequest\<close> refuses is terminal, and it reaches the client not once.
\<close>

theorem OpenAIProvider_call_retries_every_failure:
  assumes "int k \<le> retries_or_default options"
    and "\<forall>j < k. \<exists>e. client request j = Inl e"
    and "(\<exists>v. client request k = Inr v) \<or> int k = retries_or_default options"
  shows "OpenAIProvider_call config client transformResponse random request options =
     (if \<not> validateRequest config request
      then (Inl (handleError config ''Invalid request for OpenAI provider'' ''chat completion''),
            0, [])
      else (case client request k of
              Inr response \<Rightarrow> Inr (transformResponse response)
            | Inl e \<Rightarrow> Inl (handleError config (message e) ''chat completion''),
            k + 1, map (\<lambda>attempt. 1000 * 2 ^ attempt + random attempt * 1000) [0..<k]))"
proof -
  have "withRetry (client request) (retries_or_default options) 1000 random =
      (case client request k of Inr v \<Rightarrow> Inr v | Inl e \<Rightarrow> Inl (Some e), k + 1,
       map (backoff 1000 random) [0..<k])"
    unfolding withRetry_def
    using withRetry_loop_run [of 0 k "retries_or_default options" "client request" 1000 random None "[]"]
      assms by simp
  then show ?thesis
    by (auto simp: OpenAIProvider_call_def backoff_def split: sum.splits)
qed

text \<open>A client whose every answer is an authentication failure.\<close>

definition test_config :: ProviderConfig where
  "test_config = \<lparr>provider_name = ''OpenAI'', apiKey = ''sk-test'',
     models = [''gpt-4'', ''gpt-4-turbo'', ''gpt-3.5-turbo'']\<rparr>"

definition test_request :: ProviderRequest where
  "test_request = \<lparr>model = ''gpt-4'', messages = [\<lparr>role = ''user'', content = ''Hello''\<rparr>]\<rparr>"

definition unauthorized_client :: "ProviderRequest \<Rightarrow> nat \<Rightarrow> api_error + string" where
  "unauthorized_client request attempt = Inl (ApiError AuthFailure ''401 Incorrect API key provided'')"

text \<open>
  Claim C8 as stated fails: with three retries configured, a client that answers every
  call with an authentication failure is called four times, after delays of 1500, 2500
  and 4500 ms (with \<open>Math.random()\<close> returning one half), before the error is thrown.
\<close>

theorem auth_failure_is_retried:
  "validateRequest test_config test_request
   \<and> OpenAIProvider_call test_config unauthorized_client (\<lambda>raw. raw) (\<lambda>attempt. 1 / 2)
        test_request \<lparr>opt_retries = Some 3, opt_timeout = Some 30000\<rparr>
     = (Inl ''Provider OpenAI error in chat completion: 401 Incorrect API key provided'',
        4, [1500, 2500, 4500])"
  by (simp add: OpenAIProvider_call_def validateRequest_def test_config_def test_request_def
        unauthorized_client_def retries_or_default_def withRetry_def withRetry_loop.simps
        handleError_def)

text \<open>The same run, obtained from the theorem with \<open>k = 3\<close>.\<close>

theorem OpenAIProvider_call_retries_every_failure_witness:
  "int 3 \<le> retries_or_default \<lparr>opt_retries = Some 3, opt_timeout = Some 30000\<rparr>
   \<and> unauthorized_client test_request 0 = Inl (ApiError AuthFailure ''401 Incorrect API key provided'')
   \<and> unauthorized_client test_request 1 = Inl (ApiError AuthFailure ''401 Incorrect API key provided'')
   \<and> unauthorized_client test_request 2 = Inl (ApiError AuthFailure ''401 Incorrect API key provided'')
   \<and> int 3 = retries_or_default \<lparr>opt_retries = Some 3, opt_timeout = Some 30000\<rparr>
   \<and> validateRequest test_config test_request
   \<and> OpenAIProvider_call test_config unauthorized_client (\<lambda>raw. raw) (\<lambda>attempt. 1 / 2)
        test_request \<lparr>opt_retries = Some 3, opt_timeout = Some 30000\<rparr>
     = (Inl (handleError test_config ''401 Incorrect API key provided'' ''chat completion''),
        4, [1500, 2500, 4500])"
proof -
  let ?options = "\<lparr>opt_retries = Some 3, opt_timeout = Some 30000\<rparr>"
  have h1: "int 3 \<le> retries_or_default ?options" by (simp add: retries_or_default_def)
  have h2: "\<forall>j < 3. \<exists>e. unauthorized_client test_request j = Inl e"
    by (simp add: unauthorized_client_def)
  have h3: "(\<exists>v. unauthorized_client test_request 3 = Inr v) \<or> int 3 = retries_or_default ?options"
    by (simp add: retries_or_default_def)
  have v: "validateRequest test_config test_request"
    by (simp add: validateRequest_def test_config_def test_request_def)
  have up: "[0..<3] = [0, 1, 2]" by (simp add: upt_rec)
  from OpenAIProvider_call_retries_every_failure
         [where k = 3 and client = unauthorized_client and request = test_request
            and options = ?options and config = test_config
            and transformResponse = "\<lambda>raw. raw" and random = "\<lambda>attempt. 1 / 2",
          OF h1 h2 h3]
       h1 h2 v
  show ?thesis
    by (simp add: unauthorized_client_def up retries_or_default_def)
qed

section \<open>Provider router: \<open>ProviderManager\<close>\<close>

subsection \<open>Configuration tables\<close>

text \<open>
  The rows of \<open>config/models.ts\<close> and \<open>config/plans.ts\<close>, with the fields the router reads.
\<close>

record Model =
  model_id :: string
  model_provider :: string
  model_enabled :: bool

definition models_table :: "(string \<times> Model) list" where
  "models_table = map (\<lambda>(i, p). (i, \<lparr>model_id = i, model_provider = p, model_enabled = True\<rparr>))
     [(''gpt-4'', ''openai''), (''gpt-4-turbo'', ''openai''), (''gpt-3.5-turbo'', ''openai''),
      (''claude-3-opus'', ''anthropic''), (''claude-3-sonnet'', ''anthropic''),
      (''claude-3-haiku'', ''anthropic''),
      (''llama-3.1-70b-instruct'', ''perplexity''), (''llama-3.1-8b-instruct'', ''perplexity''),
      (''gpt-4-openrouter'', ''openrouter'')]"

definition getModel :: "string \<Rightarrow> Model option" where
  "getModel i = (case map_of models_table i of
                   None \<Rightarrow> None
                 | Some m \<Rightarrow> if \<not> model_enabled m then None else Some m)"

record Plan =
  plan_id :: string
  dailyMessageLimit :: int
  contextSize :: int
  memoryEnabled :: bool
  contextReductionFactor :: real
  modelDowngradeChain :: "string list"
  plan_enabled :: bool

definition plans_table :: "(string \<times> Plan) list" where
  "plans_table =
     [(''free'', \<lparr>plan_id = ''free'', dailyMessageLimit = 10, contextSize = 5,
         memoryEnabled = False, contextReductionFactor = 0.5,
         modelDowngradeChain = [''gpt-3.5-turbo'', ''claude-3-haiku''], plan_enabled = True\<rparr>),
      (''basic'', \<lparr>plan_id = ''basic'', dailyMessageLimit = 50, contextSize = 15,
         memoryEnabled = True, contextReductionFactor = 0.7,
         modelDowngradeChain = [''gpt-4-turbo'', ''claude-3-sonnet'', ''gpt-3.5-turbo''],
         plan_enabled = True\<rparr>),
      (''pro'', \<lparr>plan_id = ''pro'', dailyMessageLimit = 300, contextSize = 50,
         memoryEnabled = True, contextReductionFactor = 0.9,
         modelDowngradeChain = [''gpt-4'', ''claude-3-opus'', ''gpt-4-turbo''],
         plan_enabled = True\<rparr>),
      (''enterprise'', \<lparr>plan_id = ''enterprise'', dailyMessageLimit = 1000, contextSize = 100,
         memoryEnabled = True, contextReductionFactor = 1.0,
         modelDowngradeChain = [''gpt-4'', ''claude-3-opus''], plan_enabled = True\<rparr>)]"

definition getPlan :: "string \<Rightarrow> Plan option" where
  "getPlan i = (case map_of plans_table i of
                  None \<Rightarrow> None
                | Some p \<Rightarrow> if \<not> plan_enabled p then None else Some p)"

subsection \<open>Circuit-breaker state in Redis\<close>

datatype cb_status = Closed | Open | HalfOpen

record CircuitBreakerState =
  status :: cb_status
  failureCount :: int
  lastFailureTime :: "int option"
  nextAttemptTime :: "int option"

record ProviderResponse =
  response_id :: string
  response_model :: string
  response_provider :: string
  response_content :: string
  totalTokens :: int
  cost :: real
  processingTime :: int
  meta_fallbackUsed :: bool
  providerUsed :: "string option"
  fallbackReason :: "string option"

datatype console_line = PrimaryFailed string | TryingFallback string | FallbackFailed string

text \<open>
  What the router acts on: the circuit hashes in Redis, each with the time its key expires,
  the clock, the console, and the sequence of adapter invocations by provider name.
\<close>

record World =
  circuits :: "string \<rightharpoonup> CircuitBreakerState \<times> int"
  now :: int
  console :: "console_line list"
  adapter_calls :: "string list"

text \<open>A number is truthy when it is present and not zero.\<close>

fun truthy_num :: "int option \<Rightarrow> bool" where
  "truthy_num None = False"
| "truthy_num (Some t) = (t \<noteq> 0)"

definition live_hash :: "string \<Rightarrow> World \<Rightarrow> CircuitBreakerState option" where
  "live_hash k w = (case circuits w k of
                      None \<Rightarrow> None
                    | Some (h, expires) \<Rightarrow> if now w < expires then Some h else None)"

definition getCircuitBreakerState :: "string \<Rightarrow> World \<Rightarrow> CircuitBreakerState" where
  "getCircuitBreakerState k w =
     (case live_hash k w of
        None \<Rightarrow> \<lparr>status = Closed, failureCount = 0, lastFailureTime = None,
                 nextAttemptTime = None\<rparr>
      | Some h \<Rightarrow> h)"

text \<open>
  \<open>hSet\<close> writes the fields it is given and keeps the others: the two times are only
  written when truthy. The key then expires 24 hours later.
\<close>

definition updateCircuitBreakerState :: "string \<Rightarrow> CircuitBreakerState \<Rightarrow> World \<Rightarrow> World" where
  "updateCircuitBreakerState k s w =
     (let old = live_hash k w;
          h = \<lparr>status = status s, failureCount = failureCount s,
               lastFailureTime = (if truthy_num (lastFailureTime s) then lastFailureTime s
                                  else (case old of None \<Rightarrow> None | Some prev \<Rightarrow> lastFailureTime prev)),
               nextAttemptTime = (if truthy_num (nextAttemptTime s) then nextAttemptTime s
                                  else (case old of None \<Rightarrow> None | Some prev \<Rightarrow> nextAttemptTime prev))\<rparr>
      in w\<lparr>circuits := (circuits w)(k \<mapsto> (h, now w + 24 * 60 * 60 * 1000))\<rparr>)"

subsection \<open>The manager\<close>

text \<open>
  An adapter: the models its configuration lists, and what its \<open>call\<close> gives on its
  \<open>n\<close>-th invocation (counted from 0), with the time the invocation takes.
\<close>

record Adapter =
  supported :: "string list"
  respond :: "nat \<Rightarrow> ProviderRequest \<Rightarrow> (string + ProviderResponse) \<times> nat"

record ProviderManager =
  enableCircuitBreaker :: bool
  enableRateLimiting :: bool
  maxRetries :: int
  fallbackTimeout :: int
  providers :: "(string \<times> Adapter) list"

record CallOptions =
  opt_userId :: "string option"
  planId :: "string option"
  personality :: "string option"
  task :: "string option"
  forceProvider :: "string option"

datatype cb_result = Success | Failure

definition updateCircuitBreaker :: "ProviderManager \<Rightarrow> string \<Rightarrow> cb_result \<Rightarrow> World \<Rightarrow> World" where
  "updateCircuitBreaker mgr providerName res w =
     (if \<not> enableCircuitBreaker mgr then w
      else
        (let currentState = getCircuitBreakerState providerName w;
             threshold = 5;
             timeout_ms = 60000
         in case res of
              Success \<Rightarrow>
                updateCircuitBreakerState providerName
                  \<lparr>status = Closed, failureCount = 0, lastFailureTime = None,
                   nextAttemptTime = None\<rparr> w
            | Failure \<Rightarrow>
                (let newFailureCount = failureCount currentState + 1;
                     shouldOpen = (newFailureCount \<ge> threshold)
                 in updateCircuitBreakerState providerName
                      \<lparr>status = (if shouldOpen then Open else Closed),
                       failureCount = newFailureCount,
                       lastFailureTime = Some (now w),
                       nextAttemptTime = (if shouldOpen then Some (now w + timeout_ms) else None)\<rparr>
                      w)))"

definition findProviderForModel :: "ProviderManager \<Rightarrow> string \<Rightarrow> string option" where
  "findProviderForModel mgr modelId =
     (case filter (\<lambda>(providerName, provider). modelId \<in> set (supported provider)) (providers mgr) of
        [] \<Rightarrow> None
      | (providerName, provider) # rest \<Rightarrow> Some providerName)"

text \<open>The providers of a downgrade chain: unknown models and empty names drop out.\<close>

definition chain_providers :: "string list \<Rightarrow> string list" where
  "chain_providers chain =
     List.map_filter
       (\<lambda>modelId. case getModel modelId of
                     None \<Rightarrow> None
                   | Some m \<Rightarrow> if model_provider m = [] then None else Some (model_provider m))
       chain"

definition selectProvider ::
  "ProviderManager \<Rightarrow> string \<Rightarrow> CallOptions \<Rightarrow> string + string \<times> string \<times> string list" where
  "selectProvider mgr modelId options =
     (case getModel modelId of
        None \<Rightarrow> Inl (''Model '' @ modelId @ '' not found'')
      | Some m \<Rightarrow>
          if truthy (forceProvider options) then
            (case map_of (providers mgr) (the (forceProvider options)) of
               None \<Rightarrow> Inl (''Forced provider '' @ the (forceProvider options) @ '' not found'')
             | Some provider \<Rightarrow> Inr (the (forceProvider options), modelId, []))
          else
            (let fallbackProviders =
                   (if truthy (planId options) then
                      (case getPlan (the (planId options)) of
                         None \<Rightarrow> []
                       | Some plan \<Rightarrow> chain_providers (modelDowngradeChain plan))
                    else [])
             in case findProviderForModel mgr modelId of
                  None \<Rightarrow> Inl (''No provider found for model '' @ modelId)
                | Some provider \<Rightarrow>
                    Inr (provider, modelId, filter (\<lambda>p. p \<noteq> provider) fallbackProviders)))"

definition callProvider ::
  "ProviderManager \<Rightarrow> string \<Rightarrow> ProviderRequest \<Rightarrow> World \<Rightarrow> (string + ProviderResponse) \<times> World" where
  "callProvider mgr providerName request w =
     (case map_of (providers mgr) providerName of
        None \<Rightarrow> (Inl (''Provider '' @ providerName @ '' not found''), w)
      | Some provider \<Rightarrow>
          (let circuitState = getCircuitBreakerState providerName w;
               is_open = (enableCircuitBreaker mgr \<and> status circuitState = Open);
               blocked = (is_open \<and> truthy_num (nextAttemptTime circuitState)
                          \<and> now w < the (nextAttemptTime circuitState));
               w1 = (if is_open \<and> \<not> blocked
                     then updateCircuitBreakerState providerName
                            (circuitState\<lparr>status := HalfOpen\<rparr>) w
                     else w)
           in if blocked
              then (Inl (''Provider '' @ providerName @ '' circuit breaker is open''), w)
              else
                (let (outcome, elapsed) =
                       respond provider (count_list (adapter_calls w1) providerName) request
                 in (outcome, w1\<lparr>adapter_calls := adapter_calls w1 @ [providerName],
                                  now := now w1 + int elapsed\<rparr>))))"

fun fallbackLoop ::
  "ProviderManager \<Rightarrow> string \<Rightarrow> ProviderRequest \<Rightarrow> int \<Rightarrow> string list \<Rightarrow> World
     \<Rightarrow> (string + ProviderResponse) \<times> World" where
  "fallbackLoop mgr provider request startTime_ms [] w =
     (Inl (''All providers failed for model '' @ model request), w)"
| "fallbackLoop mgr provider request startTime_ms (fallbackProvider # rest) w =
     (let w1 = w\<lparr>console := console w @ [TryingFallback fallbackProvider]\<rparr>
      in case callProvider mgr fallbackProvider request w1 of
           (Inr response, w2) \<Rightarrow>
             (let w3 = (if enableCircuitBreaker mgr
                        then updateCircuitBreaker mgr fallbackProvider Success w2 else w2)
              in (Inr (response\<lparr>processingTime := now w3 - startTime_ms,
                                 meta_fallbackUsed := True,
                                 providerUsed := Some fallbackProvider,
                                 fallbackReason := Some (''Primary provider '' @ provider @ '' failed'')\<rparr>),
                  w3))
         | (Inl fallbackError, w2) \<Rightarrow>
             (let w3 = w2\<lparr>console := console w2 @ [FallbackFailed fallbackProvider]\<rparr>;
                  w4 = (if enableCircuitBreaker mgr
                        then updateCircuitBreaker mgr fallbackProvider Failure w3 else w3)
              in fallbackLoop mgr provider request startTime_ms rest w4))"

definition call ::
  "ProviderManager \<Rightarrow> ProviderRequest \<Rightarrow> CallOptions \<Rightarrow> World
     \<Rightarrow> (string + ProviderResponse) \<times> World" where
  "call mgr request options w =
     (let startTime_ms = now w
      in case selectProvider mgr (model request) options of
           Inl e \<Rightarrow> (Inl (''Provider manager error: '' @ e), w)
         | Inr (provider, modelId, fallbackProviders) \<Rightarrow>
             (case callProvider mgr provider request w of
                (Inr response, w1) \<Rightarrow>
                  (let w2 = (if enableCircuitBreaker mgr
                             then updateCircuitBreaker mgr provider Success w1 else w1)
                   in (Inr (response\<lparr>processingTime := now w2 - startTime_ms,
                                      meta_fallbackUsed := False,
                                      providerUsed := Some provider\<rparr>), w2))
              | (Inl e, w1) \<Rightarrow>
                  (let w2 = w1\<lparr>console := console w1 @ [PrimaryFailed provider]\<rparr>
                   in case fallbackLoop mgr provider request startTime_ms fallbackProviders w2 of
                        (Inr response, w3) \<Rightarrow> (Inr response, w3)
                      | (Inl e', w3) \<Rightarrow> (Inl (''Provider manager error: '' @ e'), w3))))"

text \<open>
  The manager as its constructor builds it: the OpenAI and the Perplexity adapter, in that
  order, with the model lists of \<open>config/providers.ts\<close>.
\<close>

definition new_ProviderManager ::
  "(nat \<Rightarrow> ProviderRequest \<Rightarrow> (string + ProviderResponse) \<times> nat)
     \<Rightarrow> (nat \<Rightarrow> ProviderRequest \<Rightarrow> (string + ProviderResponse) \<times> nat) \<Rightarrow> ProviderManager" where
  "new_ProviderManager openai perplexity =
     \<lparr>enableCircuitBreaker = True, enableRateLimiting = True, maxRetries = 3,
      fallbackTimeout = 30000,
      providers =
        [(''openai'', \<lparr>supported = [''gpt-4'', ''gpt-4-turbo'', ''gpt-3.5-turbo''],
                        respond = openai\<rparr>),
         (''perplexity'', \<lparr>supported = [''llama-3.1-8b-instruct'', ''llama-3.1-70b-instruct'',
                                          ''mixtral-8x7b-instruct''],
                            respond = perplexity\<rparr>)]\<rparr>"

definition failing :: "nat \<Rightarrow> ProviderRequest \<Rightarrow> (string + ProviderResponse) \<times> nat" where
  "failing n request = (Inl ''upstream failure'', 0)"

definition no_options :: CallOptions where
  "no_options = \<lparr>opt_userId = None, planId = None, personality = None, task = None,
     forceProvider = None\<rparr>"

definition initial_world :: World where
  "initial_world = \<lparr>circuits = Map.empty, now = 0, console = [], adapter_calls = []\<rparr>"

fun repeat_call :: "nat \<Rightarrow> ProviderManager \<Rightarrow> ProviderRequest \<Rightarrow> CallOptions \<Rightarrow> World \<Rightarrow> World" where
  "repeat_call 0 mgr request options w = w"
| "repeat_call (Suc n) mgr request options w =
     repeat_call n mgr request options (snd (call mgr request options w))"

definition llama_request :: ProviderRequest where
  "llama_request = \<lparr>model = ''llama-3.1-70b-instruct'',
     messages = [\<lparr>role = ''user'', content = ''Hello''\<rparr>]\<rparr>"

subsection \<open>Auxiliary facts about one provider call\<close>

lemma updateCircuitBreakerState_frame [simp]:
  "now (updateCircuitBreakerState k s w) = now w"
  "console (updateCircuitBreakerState k s w) = console w"
  "adapter_calls (updateCircuitBreakerState k s w) = adapter_calls w"
  "p \<noteq> k \<Longrightarrow> circuits (updateCircuitBreakerState k s w) p = circuits w p"
  by (simp_all add: updateCircuitBreakerState_def Let_def)

lemma updateCircuitBreaker_frame [simp]:
  "now (updateCircuitBreaker mgr k r w) = now w"
  "console (updateCircuitBreaker mgr k r w) = console w"
  "adapter_calls (updateCircuitBreaker mgr k r w) = adapter_calls w"
  "p \<noteq> k \<Longrightarrow> circuits (updateCircuitBreaker mgr k r w) p = circuits w p"
  by (simp_all add: updateCircuitBreaker_def Let_def split: cb_result.splits)

lemma callProvider_frame:
  "console (snd (callProvider mgr k request w)) = console w"
  "now w \<le> now (snd (callProvider mgr k request w))"
  "p \<noteq> k \<Longrightarrow> circuits (snd (callProvider mgr k request w)) p = circuits w p"
  "p \<noteq> k \<Longrightarrow> count_list (adapter_calls (snd (callProvider mgr k request w))) p
                 = count_list (adapter_calls w) p"
  by (auto simp: callProvider_def Let_def split: option.splits prod.splits)

lemma fallbackLoop_frame:
  assumes "p \<notin> set chain"
  shows "circuits (snd (fallbackLoop mgr provider request t0 chain w)) p = circuits w p
       \<and> count_list (adapter_calls (snd (fallbackLoop mgr provider request t0 chain w))) p
           = count_list (adapter_calls w) p
       \<and> now w \<le> now (snd (fallbackLoop mgr provider request t0 chain w))"
  using assms
proof (induction chain arbitrary: w)
  case Nil
  then show ?case by simp
next
  case (Cons f rest)
  let ?w1 = "w\<lparr>console := console w @ [TryingFallback f]\<rparr>"
  obtain outcome w2 where cp: "callProvider mgr f request ?w1 = (outcome, w2)"
    by (cases "callProvider mgr f request ?w1")
  from Cons.prems have ne: "p \<noteq> f" and rest: "p \<notin> set rest" by auto
  from callProvider_frame(2-4) [where w = ?w1 and mgr = mgr and k = f and request = request,
      unfolded cp] ne
  have w2: "circuits w2 p = circuits w p"
      "count_list (adapter_calls w2) p = count_list (adapter_calls w) p" "now w \<le> now w2"
    by simp_all
  show ?case
  proof (cases outcome)
    case (Inr response)
    with cp w2 ne show ?thesis by (simp add: Let_def)
  next
    case (Inl e)
    let ?w3 = "w2\<lparr>console := console w2 @ [FallbackFailed f]\<rparr>"
    let ?w4 = "if enableCircuitBreaker mgr then updateCircuitBreaker mgr f Failure ?w3 else ?w3"
    have "circuits ?w4 p = circuits w p"
        "count_list (adapter_calls ?w4) p = count_list (adapter_calls w) p" "now w \<le> now ?w4"
      using w2 ne by simp_all
    with Cons.IH [OF rest, of ?w4] cp Inl show ?thesis
      by (simp add: Let_def)
  qed
qed

lemma selectProvider_excludes_primary:
  "selectProvider mgr modelId options = Inr (provider, m, chain) \<Longrightarrow> provider \<notin> set chain"
  by (auto simp: selectProvider_def Let_def split: option.splits if_splits)

definition not_open :: "string \<Rightarrow> World \<Rightarrow> bool" where
  "not_open p w \<longleftrightarrow> status (getCircuitBreakerState p w) \<noteq> Open"

lemma not_open_later:
  assumes "not_open p w" and "circuits w' p = circuits w p" and "now w \<le> now w'"
  shows "not_open p w'"
  using assms
  by (auto simp: not_open_def getCircuitBreakerState_def live_hash_def
           split: option.splits prod.splits if_splits)

lemma callProvider_not_open:
  assumes "map_of (providers mgr) p = Some a" and "not_open p w"
  shows "callProvider mgr p request w =
           (fst (respond a (count_list (adapter_calls w) p) request),
            w\<lparr>adapter_calls := adapter_calls w @ [p],
              now := now w + int (snd (respond a (count_list (adapter_calls w) p) request))\<rparr>)"
  using assms by (simp add: callProvider_def not_open_def Let_def case_prod_beta)

lemma failed_primary_call:
  assumes sel: "selectProvider mgr (model request) options = Inr (p, m, chain)"
    and adapter: "map_of (providers mgr) p = Some a"
    and fails: "\<forall>n. isl (fst (respond a n request))"
    and closed: "not_open p w"
  shows "circuits (snd (call mgr request options w)) p = circuits w p
       \<and> count_list (adapter_calls (snd (call mgr request options w))) p
           = count_list (adapter_calls w) p + 1
       \<and> now w \<le> now (snd (call mgr request options w))"
proof -
  let ?n = "count_list (adapter_calls w) p"
  let ?w1 = "w\<lparr>adapter_calls := adapter_calls w @ [p],
               now := now w + int (snd (respond a ?n request))\<rparr>"
  let ?w2 = "?w1\<lparr>console := console ?w1 @ [PrimaryFailed p]\<rparr>"
  from fails obtain e where e: "fst (respond a ?n request) = Inl e"
    by (metis isl_def)
  have cp: "callProvider mgr p request w = (Inl e, ?w1)"
    using callProvider_not_open [OF adapter closed] e by simp
  have ex: "p \<notin> set chain" using sel by (rule selectProvider_excludes_primary)
  note fl = fallbackLoop_frame [OF ex, where mgr = mgr and provider = p and request = request
      and ?t0.0 = "now w" and w = ?w2]
  obtain out w3 where loop: "fallbackLoop mgr p request (now w) chain ?w2 = (out, w3)"
    by (cases "fallbackLoop mgr p request (now w) chain ?w2")
  have "snd (call mgr request options w) = w3"
    using sel cp loop by (simp add: call_def Let_def split: sum.splits)
  with fl loop show ?thesis by simp
qed

subsection \<open>Circuit breaker\<close>

text \<open>
  Claim C2, where the code departs from it. A provider is selected as the primary one, its
  adapter fails on every invocation, and its circuit is not open. Then, after any number
  \<open>n\<close> of router calls, whatever the fallback providers do and however much time passes,
  the adapter has been invoked \<open>n\<close> more times, the provider's circuit hash in Redis is
  what it was, and the circuit is still not open: \<open>call\<close> records a failure only for
  fallback providers, never for the primary one.
\<close>

theorem primary_failures_never_open_the_circuit:
  assumes sel: "selectProvider mgr (model request) options = Inr (p, m, chain)"
    and adapter: "map_of (providers mgr) p = Some a"
    and fails: "\<forall>n. isl (fst (respond a n request))"
    and closed: "status (getCircuitBreakerState p w) \<noteq> Open"
  shows "count_list (adapter_calls (repeat_call n mgr request options w)) p
           = count_list (adapter_calls w) p + n
       \<and> circuits (repeat_call n mgr request options w) p = circuits w p
       \<and> status (getCircuitBreakerState p (repeat_call n mgr request options w)) \<noteq> Open"
proof -
  have "not_open p w" using closed by (simp add: not_open_def)
  then have "count_list (adapter_calls (repeat_call n mgr request options w)) p
               = count_list (adapter_calls w) p + n
           \<and> circuits (repeat_call n mgr request options w) p = circuits w p
           \<and> not_open p (repeat_call n mgr request options w)"
  proof (induction n arbitrary: w)
    case 0
    then show ?case by simp
  next
    case (Suc n)
    let ?w' = "snd (call mgr request options w)"
    note step = failed_primary_call [OF sel adapter fails Suc.prems]
    have "not_open p ?w'"
    proof (rule not_open_later [OF Suc.prems])
      show "circuits ?w' p = circuits w p" using step by blast
      show "now w \<le> now ?w'" using step by blast
    qed
    from Suc.IH [OF this] step show ?case by simp
  qed
  then show ?thesis by (simp add: not_open_def)
qed

lemma llama_selection:
  "selectProvider (new_ProviderManager openai perplexity) (model llama_request)
     (no_options\<lparr>planId := Some ''free''\<rparr>)
     = Inr (''perplexity'', ''llama-3.1-70b-instruct'', [''openai'', ''anthropic''])"
  "selectProvider (new_ProviderManager openai perplexity) (model llama_request)
     (no_options\<lparr>planId := Some ''pro''\<rparr>)
     = Inr (''perplexity'', ''llama-3.1-70b-instruct'', [''openai'', ''anthropic'', ''openai''])"
  by code_simp+

text \<open>
  Six calls for a Perplexity model on the free plan, every adapter failing: the sixth call
  invokes the Perplexity adapter again, and no circuit hash was ever written for it.
\<close>

theorem primary_failures_never_open_the_circuit_witness:
  "selectProvider (new_ProviderManager failing failing) (model llama_request)
     (no_options\<lparr>planId := Some ''free''\<rparr>)
     = Inr (''perplexity'', ''llama-3.1-70b-instruct'', [''openai'', ''anthropic''])
   \<and> status (getCircuitBreakerState ''perplexity'' initial_world) = Closed
   \<and> count_list (adapter_calls (repeat_call 6 (new_ProviderManager failing failing) llama_request
          (no_options\<lparr>planId := Some ''free''\<rparr>) initial_world)) ''perplexity'' = 6
   \<and> circuits (repeat_call 6 (new_ProviderManager failing failing) llama_request
          (no_options\<lparr>planId := Some ''free''\<rparr>) initial_world) ''perplexity'' = None"
proof -
  let ?mgr = "new_ProviderManager failing failing"
  let ?a = "\<lparr>supported = [''llama-3.1-8b-instruct'', ''llama-3.1-70b-instruct'',
                          ''mixtral-8x7b-instruct''], respond = failing\<rparr>"
  have h2: "map_of (providers ?mgr) ''perplexity'' = Some ?a"
    by (simp add: new_ProviderManager_def)
  have h3: "\<forall>n. isl (fst (respond ?a n llama_request))"
    by (simp add: failing_def)
  have c: "status (getCircuitBreakerState ''perplexity'' initial_world) = Closed"
    by (simp add: getCircuitBreakerState_def live_hash_def initial_world_def)
  then have h4: "status (getCircuitBreakerState ''perplexity'' initial_world) \<noteq> Open" by simp
  from primary_failures_never_open_the_circuit [OF llama_selection(1) h2 h3 h4, of 6]
       llama_selection(1) [of failing failing] c
  show ?thesis by (simp add: initial_world_def)
qed

subsection \<open>The fallback chain\<close>







section \<open>Request orchestrator: \<open>MessageRouter\<close>\<close>

record Personality =
  personality_id :: string
  systemPrompt :: string
  allowedTasks :: "string list"
  defaultModel :: string

record UserProfile =
  user_id :: string
  plan :: string
  memoryOptOut :: bool

text \<open>
  A row of \<open>user_usage\<close>. \<open>lastResetDate\<close> is kept as the instant it denotes, in
  milliseconds; \<open>toDateString\<close> of two instants agrees when they fall on the same day.
\<close>

record UserUsage =
  dailyMessages :: int
  usage_totalTokens :: int
  lastResetDate :: "int option"


record MemoryAtom =
  memory_content :: string

record ClientContext =
  client_task :: "string option"
  client_model :: "string option"


text \<open>
  The collaborators of the router: the profile and usage tables, the clock, the
  personality table of \<open>config/personalities.ts\<close>, the history store and the memory store.
  In the source the last two are stubs that return the empty list
  (\<open>getConversationHistory\<close>, \<open>getRelevantMemories\<close>); they are fields here so that the
  window the router asks for can be observed.
\<close>

record Backend =
  profiles :: "string \<rightharpoonup> UserProfile"
  usage :: "string \<rightharpoonup> UserUsage"
  today_ms :: int
  personalities :: "(string \<times> Personality) list"
  history :: "string \<Rightarrow> int \<Rightarrow> ChatMessage list"
  memories :: "string \<Rightarrow> string \<Rightarrow> MemoryAtom list"

definition getConversationHistory :: "string \<Rightarrow> int \<Rightarrow> ChatMessage list" where
  "getConversationHistory conversation maxMessages = []"









subsection \<open>A caller at the daily quota\<close>





section \<open>Properties of the request orchestrator\<close>





section \<open>Pipeline engine: \<open>EventPipeline\<close>\<close>

datatype PipelineStage =
    INGEST | VALIDATE | CONTEXT_ANALYSIS | PERSONALITY_ROUTING | FUNCTION_EXECUTION
  | MEMORY_UPDATE | RESPONSE_GENERATION | FEEDBACK_LOOP

text \<open>\<open>Object.values(PipelineStage)\<close>: the stages in the order of their declaration.\<close>

definition all_stages :: "PipelineStage list" where
  "all_stages = [INGEST, VALIDATE, CONTEXT_ANALYSIS, PERSONALITY_ROUTING, FUNCTION_EXECUTION,
                 MEMORY_UPDATE, RESPONSE_GENERATION, FEEDBACK_LOOP]"

record Event =
  event_id :: string
  event_type :: string
  event_userId :: string
  event_sessionId :: string
  payload :: "(string \<times> jsval) list"
  contextHash :: string

record PipelineContext =
  event :: Event
  stage :: PipelineStage
  data :: "string \<rightharpoonup> jsval"
  errors :: "string list"
  warnings :: "string list"
  metrics_startTime :: int
  stageTimes :: "PipelineStage \<rightharpoonup> int"
  totalTime :: int

datatype pipeline_event =
    StageStart PipelineStage
  | StageComplete PipelineStage
  | PipelineError string
  | MemoryUpdated string string

text \<open>
  What the steps act on besides the context: the clock, the events emitted, and the Redis
  client of the pipeline with the keys it holds (value and time to live in seconds).
\<close>

record PipelineWorld =
  pipeline_now :: int
  pipeline_emitted :: "pipeline_event list"
  redis_connected :: bool
  redis :: "string \<rightharpoonup> jsval \<times> int"

text \<open>
  A step receives the context and may change it and the world; it either returns or
  throws (\<open>Some\<close> of the error message).
\<close>

type_synonym step =
  "PipelineContext \<Rightarrow> PipelineWorld \<Rightarrow> string option \<times> PipelineContext \<times> PipelineWorld"

definition emit_event :: "pipeline_event \<Rightarrow> PipelineWorld \<Rightarrow> PipelineWorld" where
  "emit_event e w = w\<lparr>pipeline_emitted := pipeline_emitted w @ [e]\<rparr>"

text \<open>The inner loop of \<open>processEvent\<close>: the steps of one stage, awaited in sequence.\<close>

fun runSteps :: "step list \<Rightarrow> step" where
  "runSteps [] c w = (None, c, w)"
| "runSteps (func # rest) c w =
     (case func c w of
        (Some e, c', w') \<Rightarrow> (Some e, c', w')
      | (None, c', w') \<Rightarrow> runSteps rest c' w')"

text \<open>The outer loop: a stage without an entry in \<open>pipelines\<close> has no steps.\<close>

fun runStages :: "(PipelineStage \<rightharpoonup> step list) \<Rightarrow> PipelineStage list \<Rightarrow> step" where
  "runStages pipelines [] c w = (None, c, w)"
| "runStages pipelines (s # rest) c w =
     (let c1 = c\<lparr>stage := s\<rparr>;
          stageStartTime = pipeline_now w;
          w1 = emit_event (StageStart s) w;
          stageFunctions = (case pipelines s of None \<Rightarrow> [] | Some fs \<Rightarrow> fs)
      in case runSteps stageFunctions c1 w1 of
           (Some e, c2, w2) \<Rightarrow> (Some e, c2, w2)
         | (None, c2, w2) \<Rightarrow>
             (let c3 = c2\<lparr>stageTimes := (stageTimes c2)(s \<mapsto> pipeline_now w2 - stageStartTime)\<rparr>;
                  w3 = emit_event (StageComplete s) w2
              in runStages pipelines rest c3 w3))"

definition initial_context :: "Event \<Rightarrow> PipelineWorld \<Rightarrow> PipelineContext" where
  "initial_context ev w =
     \<lparr>event = ev, stage = INGEST, data = Map.empty, errors = [], warnings = [],
      metrics_startTime = pipeline_now w, stageTimes = Map.empty, totalTime = 0\<rparr>"

text \<open>
  \<open>processEvent\<close> returns \<open>context.data.response\<close> (\<open>None\<close> when it is undefined) or rethrows
  the error of the step that failed, after pushing it to \<open>context.errors\<close> and emitting
  \<open>pipeline:error\<close>. The context and the world are returned for inspection.
\<close>

definition processEvent ::
  "(PipelineStage \<rightharpoonup> step list) \<Rightarrow> Event \<Rightarrow> PipelineWorld
     \<Rightarrow> (string + jsval option) \<times> PipelineContext \<times> PipelineWorld" where
  "processEvent pipelines ev w =
     (case runStages pipelines all_stages (initial_context ev w) w of
        (None, c, w') \<Rightarrow>
          (Inr (data c ''response''),
           c\<lparr>totalTime := pipeline_now w' - metrics_startTime c\<rparr>, w')
      | (Some e, c, w') \<Rightarrow>
          (Inl e, c\<lparr>errors := errors c @ [e]\<rparr>, emit_event (PipelineError e) w'))"

text \<open>
  \<open>updateShortTermMemory\<close>: the write to Redis is awaited without a \<open>try\<close>, so a failure of
  the client is thrown by the step.
\<close>

definition updateShortTermMemory :: step where
  "updateShortTermMemory c w =
     (let ev = event c;
          memoryUpdate = JObj [(''userId'', JStr (event_userId ev)),
                               (''type'', JStr ''short_term''),
                               (''content'', JObj [(''event'', JStr (event_type ev)),
                                                   (''payload'', JObj (payload ev))]),
                               (''contextHash'', JStr (contextHash ev))]
      in if \<not> redis_connected w then (Some ''The client is closed'', c, w)
         else (None, c,
               emit_event (MemoryUpdated ''short_term'' (event_userId ev))
                 (w\<lparr>redis := (redis w)
                       (''memory:short:'' @ event_userId ev @ '':'' @ event_sessionId ev
                          \<mapsto> (memoryUpdate, 3600))\<rparr>)))"

subsection \<open>A pipeline with a memory step and a response step\<close>

definition generateResponse :: step where
  "generateResponse c w = (None, c\<lparr>data := (data c)(''response'' \<mapsto> JStr ''Hello!'')\<rparr>, w)"

definition memory_pipelines :: "PipelineStage \<rightharpoonup> step list" where
  "memory_pipelines = [MEMORY_UPDATE \<mapsto> [updateShortTermMemory],
                       RESPONSE_GENERATION \<mapsto> [generateResponse]]"

definition chat_event :: Event where
  "chat_event = \<lparr>event_id = ''123e4567-e89b-12d3-a456-426614174000'', event_type = ''chat'',
     event_userId = ''test-user-123'', event_sessionId = ''test-session-456'',
     payload = [(''message'', JStr ''Hello'')], contextHash = ''hash123''\<rparr>"

definition redis_down :: PipelineWorld where
  "redis_down = \<lparr>pipeline_now = 1000, pipeline_emitted = [], redis_connected = False,
     redis = Map.empty\<rparr>"

section \<open>Properties of the pipeline engine\<close>

lemma runSteps_append:
  "runSteps (pre @ post) c w =
     (case runSteps pre c w of
        (Some e, c', w') \<Rightarrow> (Some e, c', w')
      | (None, c', w') \<Rightarrow> runSteps post c' w')"
  by (induction pre arbitrary: c w) (auto split: prod.splits option.splits)

lemma runStages_append:
  "runStages pipelines (earlier @ later) c w =
     (case runStages pipelines earlier c w of
        (Some e, c', w') \<Rightarrow> (Some e, c', w')
      | (None, c', w') \<Rightarrow> runStages pipelines later c' w')"
  by (induction earlier arbitrary: c w) (auto simp: Let_def split: prod.splits option.splits)

text \<open>
  Claim C9, as the code has it. Let the stages before stage \<open>s\<close> complete, and let the steps
  of \<open>s\<close> before the step \<open>func\<close> return, and let \<open>func\<close> throw \<open>e\<close>. Then \<open>processEvent\<close> throws
  \<open>e\<close>: the error is pushed to \<open>context.errors\<close>, \<open>pipeline:error\<close> is emitted, and the context
  and the world are those the failing step left. No later step of \<open>s\<close> and no later stage
  has run, whatever they are and whichever step \<open>func\<close> is: no step is exempt.
\<close>

theorem step_failure_aborts_pipeline:
  assumes stages: "all_stages = earlier @ s # later"
    and completed: "runStages pipelines earlier (initial_context ev w) w = (None, c1, w1)"
    and steps: "pipelines s = Some (pre @ func # post)"
    and before: "runSteps pre (c1\<lparr>stage := s\<rparr>) (emit_event (StageStart s) w1) = (None, c2, w2)"
    and fails: "func c2 w2 = (Some e, c3, w3)"
  shows "processEvent pipelines ev w =
           (Inl e, c3\<lparr>errors := errors c3 @ [e]\<rparr>, emit_event (PipelineError e) w3)"
proof -
  have "runSteps (pre @ func # post) (c1\<lparr>stage := s\<rparr>) (emit_event (StageStart s) w1)
          = (Some e, c3, w3)"
    using before fails by (simp add: runSteps_append)
  then have "runStages pipelines (s # later) c1 w1 = (Some e, c3, w3)"
    using steps by (simp add: Let_def)
  then have "runStages pipelines all_stages (initial_context ev w) w = (Some e, c3, w3)"
    using completed by (simp add: stages runStages_append)
  then show ?thesis by (simp add: processEvent_def)
qed

text \<open>
  Claim C9 as stated fails for the memory-write step: with the Redis client closed,
  \<open>updateShortTermMemory\<close> throws, \<open>processEvent\<close> throws the same error, the pipeline stops in
  the stage \<open>MEMORY_UPDATE\<close>, no warning is recorded and no response is generated.
\<close>

theorem memory_write_failure_is_not_a_warning:
  "fst (processEvent memory_pipelines chat_event redis_down) = Inl ''The client is closed''
   \<and> warnings (fst (snd (processEvent memory_pipelines chat_event redis_down))) = []
   \<and> errors (fst (snd (processEvent memory_pipelines chat_event redis_down)))
       = [''The client is closed'']
   \<and> data (fst (snd (processEvent memory_pipelines chat_event redis_down))) ''response'' = None
   \<and> stage (fst (snd (processEvent memory_pipelines chat_event redis_down))) = MEMORY_UPDATE
   \<and> last (pipeline_emitted (snd (snd (processEvent memory_pipelines chat_event redis_down))))
       = PipelineError ''The client is closed''"
  by code_simp

text \<open>
  Claim C9, as the code has it, on the same pipeline: the five stages before
  \<open>MEMORY_UPDATE\<close> complete, its first step is \<open>updateShortTermMemory\<close>, and the event fails
  with the error of the Redis client.
\<close>

theorem step_failure_aborts_pipeline_witness:
  "all_stages = [INGEST, VALIDATE, CONTEXT_ANALYSIS, PERSONALITY_ROUTING, FUNCTION_EXECUTION]
                  @ MEMORY_UPDATE # [RESPONSE_GENERATION, FEEDBACK_LOOP]
   \<and> memory_pipelines MEMORY_UPDATE = Some ([] @ updateShortTermMemory # [])
   \<and> fst (runStages memory_pipelines
            [INGEST, VALIDATE, CONTEXT_ANALYSIS, PERSONALITY_ROUTING, FUNCTION_EXECUTION]
            (initial_context chat_event redis_down) redis_down) = None
   \<and> fst (processEvent memory_pipelines chat_event redis_down) = Inl ''The client is closed''
   \<and> warnings (fst (snd (processEvent memory_pipelines chat_event redis_down))) = []"
proof -
  let ?earlier = "[INGEST, VALIDATE, CONTEXT_ANALYSIS, PERSONALITY_ROUTING, FUNCTION_EXECUTION]"
  let ?run = "runStages memory_pipelines ?earlier (initial_context chat_event redis_down) redis_down"
  let ?c1 = "fst (snd ?run)"
  let ?w1 = "snd (snd ?run)"
  let ?c2 = "?c1\<lparr>stage := MEMORY_UPDATE\<rparr>"
  let ?w2 = "emit_event (StageStart MEMORY_UPDATE) ?w1"
  have h1: "all_stages = ?earlier @ MEMORY_UPDATE # [RESPONSE_GENERATION, FEEDBACK_LOOP]"
    by (simp add: all_stages_def)
  have n: "fst ?run = None"
    by (simp add: memory_pipelines_def Let_def)
  then have h2: "?run = (None, ?c1, ?w1)"
    by (metis prod.collapse)
  have h3: "memory_pipelines MEMORY_UPDATE = Some ([] @ updateShortTermMemory # [])"
    by (simp add: memory_pipelines_def)
  have h4: "runSteps [] ?c2 ?w2 = (None, ?c2, ?w2)" by simp
  have down: "\<not> redis_connected ?w2"
    by (simp add: memory_pipelines_def Let_def emit_event_def redis_down_def)
  have h5: "updateShortTermMemory ?c2 ?w2 = (Some ''The client is closed'', ?c2, ?w2)"
    using down by (simp add: updateShortTermMemory_def Let_def)
  have w: "warnings ?c2 = []"
    by (simp add: memory_pipelines_def Let_def initial_context_def)
  from step_failure_aborts_pipeline [OF h1 h2 h3 h4 h5] h1 h3 n w
  show ?thesis by simp
qed

end
